theory Spec2Isabelle
  imports
    Complex_Main
    "HOL-Library.Char_ord"
    "HOL-Library.List_Lexorder"
    "HOL-Library.Product_Lexorder"
    "HOL-Library.Multiset"
    "HOL-Library.Sublist"
begin

section \<open>The transactions table\<close>

text \<open>
  One row of the table \<^verbatim>\<open>transactions\<close> that \<^verbatim>\<open>init_db\<close> creates in \<^verbatim>\<open>main.py\<close>.
  The columns date, type, source and \<^verbatim>\<open>created_at\<close> hold text (SQLite would also keep
  a number there; such rows are outside the model). SQLite compares text bytewise, which
  is the lexicographic order on \<^typ>\<open>string\<close> used here. The column \<^verbatim>\<open>amount\<close> is
  \<^verbatim>\<open>REAL\<close>: it is modelled by the real numbers, so sums are exact and the rounding
  of IEEE doubles is outside the model. Only \<^verbatim>\<open>description\<close> may be \<^verbatim>\<open>NULL\<close>.
\<close>

record transaction =
  tid :: nat
  date :: string
  type :: string
  source :: string
  amount :: real
  description :: "string option"
  created_at :: string


datatype error = KeyError | ValueError | TypeError | IntegrityError | ParserError | ReadError




section \<open>Grouping and ordering\<close>

text \<open>
  \<^verbatim>\<open>SELECT key, SUM(val) ... GROUP BY key\<close> and pandas'
  \<^verbatim>\<open>df.groupby(key)[val].sum()\<close>: one entry per distinct key, holding the sum of the
  values of the rows with that key. pandas sorts the group keys (\<^verbatim>\<open>sort=True\<close> is the
  default), and so does SQLite's grouping.
\<close>

definition group_keys :: "('r \<Rightarrow> 'k::linorder) \<Rightarrow> 'r list \<Rightarrow> 'k list" where
  "group_keys key df = sort (remdups (map key df))"

definition groupby_sum :: "('r \<Rightarrow> 'k::linorder) \<Rightarrow> ('r \<Rightarrow> real) \<Rightarrow> 'r list \<Rightarrow> ('k \<times> real) list" where
  "groupby_sum key val df =
     map (\<lambda>k. (k, sum_list (map val (filter (\<lambda>r. key r = k) df)))) (group_keys key df)"

text \<open>
  \<^verbatim>\<open>ORDER BY key DESC\<close>. SQL leaves the order of rows with equal keys open; the model
  keeps them in the order they had.
\<close>

definition order_by_desc :: "('r \<Rightarrow> 'k::linorder) \<Rightarrow> 'r list \<Rightarrow> 'r list" where
  "order_by_desc key xs = rev (sort_key key (rev xs))"

section \<open>Totals\<close>

record totals =
  total_income :: real
  total_expense :: real
  total_investment :: real
  net_savings :: real

text \<open>Subscripting a Python dictionary raises \<^verbatim>\<open>KeyError\<close> on a missing key.\<close>

definition getitem :: "('k \<rightharpoonup> 'v) \<Rightarrow> 'k \<Rightarrow> error + 'v" where
  "getitem d k = (case d k of None \<Rightarrow> Inl KeyError | Some v \<Rightarrow> Inr v)"

text \<open>
  \<^verbatim>\<open>calculate_totals\<close>: the dictionary starts with the three types at 0, every row of
  \<^verbatim>\<open>SELECT type, SUM(amount) ... GROUP BY type\<close> overwrites its entry, and the result
  reads the three entries back.
\<close>

definition calculate_totals :: "transaction list \<Rightarrow> error + totals" where
  "calculate_totals tbl =
     (let fetched = groupby_sum type amount tbl;
          totals = fold (\<lambda>row d. d(fst row \<mapsto> snd row)) fetched
                     [''income'' \<mapsto> 0, ''expense'' \<mapsto> 0, ''investment'' \<mapsto> 0]
      in case getitem totals ''income'' of Inl e \<Rightarrow> Inl e | Inr income \<Rightarrow>
         (case getitem totals ''expense'' of Inl e \<Rightarrow> Inl e | Inr expense \<Rightarrow>
         (case getitem totals ''investment'' of Inl e \<Rightarrow> Inl e | Inr investment \<Rightarrow>
            Inr \<lparr>total_income = income, total_expense = expense,
                 total_investment = investment, net_savings = income - expense\<rparr>)))"

section \<open>Listing\<close>

text \<open>
  \<^verbatim>\<open>get_transactions\<close>: \<^verbatim>\<open>ORDER BY date DESC, created_at DESC\<close>, and
  \<^verbatim>\<open>LIMIT\<close> only when \<^verbatim>\<open>limit\<close> is truthy (neither \<^verbatim>\<open>None\<close> nor 0). SQLite reads a
  negative \<^verbatim>\<open>LIMIT\<close> as no limit.
\<close>

definition sql_limit :: "int \<Rightarrow> 'a list \<Rightarrow> 'a list" where
  "sql_limit k xs = (if k < 0 then xs else take (nat k) xs)"

definition get_transactions :: "int option \<Rightarrow> transaction list \<Rightarrow> transaction list" where
  "get_transactions limit tbl =
     (let ordered = order_by_desc (\<lambda>t. (date t, created_at t)) tbl
      in case limit of
           None \<Rightarrow> ordered
         | Some k \<Rightarrow> if k \<noteq> 0 then sql_limit k ordered else ordered)"

section \<open>Breakdown chart\<close>

text \<open>
  What \<^verbatim>\<open>generate_chart\<close> draws: the labels and values of the donut, the total written
  in its centre, and the path it returns. The drawing itself is not modelled.
\<close>

record donut =
  sources :: "string list"
  amounts :: "real list"
  total :: real
  chart_path :: string

text \<open>
  \<^verbatim>\<open>SELECT source, SUM(amount) as total FROM transactions WHERE type = ? GROUP BY source
  ORDER BY total DESC\<close>
\<close>

definition breakdown_query :: "string \<Rightarrow> transaction list \<Rightarrow> (string \<times> real) list" where
  "breakdown_query chart_type tbl =
     order_by_desc snd (groupby_sum source amount (filter (\<lambda>t. type t = chart_type) tbl))"

definition generate_chart :: "string \<Rightarrow> transaction list \<Rightarrow> donut option" where
  "generate_chart chart_type tbl =
     (let data = breakdown_query chart_type tbl
      in if data = [] then None
         else let srcs = map fst data; amts = map snd data
              in Some \<lparr>sources = srcs, amounts = amts, total = sum_list amts,
                       chart_path = ''charts/'' @ chart_type @ ''_chart.png''\<rparr>)"

section \<open>Monthly series and trend chart\<close>

text \<open>
  \<^verbatim>\<open>pd.to_datetime\<close> belongs to pandas, so it is a parameter: it maps the text of a date
  to a timestamp (year, month, day), or raises. \<^verbatim>\<open>dt.to_period('M')\<close> keeps the year and
  the month; periods are ordered chronologically, which is the lexicographic order of
  the pair.
\<close>

type_synonym timestamp = "nat \<times> nat \<times> nat"
type_synonym period = "nat \<times> nat"

definition to_period_M :: "timestamp \<Rightarrow> period" where
  "to_period_M ts = (case ts of (y, m, d) \<Rightarrow> (y, m))"

text \<open>
  \<^verbatim>\<open>df['date'] = pd.to_datetime(df['date']); df['month'] = df['date'].dt.to_period('M')\<close>:
  every row gets its month, and one date that does not parse makes the whole step raise.
\<close>

fun add_month ::
  "(string \<Rightarrow> timestamp option) \<Rightarrow> transaction list \<Rightarrow> error + (period \<times> transaction) list" where
  "add_month to_datetime [] = Inr []"
| "add_month to_datetime (t # df) =
     (case to_datetime (date t) of
        None \<Rightarrow> Inl ParserError
      | Some ts \<Rightarrow>
          (case add_month to_datetime df of
             Inl e \<Rightarrow> Inl e
           | Inr rows \<Rightarrow> Inr ((to_period_M ts, t) # rows)))"

text \<open>
  A data frame of numbers: the row labels, the column labels and the value at each
  (row, column). A label that is not in \<^verbatim>\<open>columns\<close> has no column.
\<close>

record ('i, 'c) pivot =
  index :: "'i list"
  columns :: "'c list"
  body :: "'i \<Rightarrow> 'c \<Rightarrow> real"

text \<open>
  \<^verbatim>\<open>unstack(fill_value=0)\<close> on a series keyed by pairs: the first components become the
  (sorted) row labels, the second components the (sorted) column labels, and a pair
  that the series lacks gets the fill value.
\<close>

definition unstack :: "real \<Rightarrow> (('i::linorder \<times> 'c::linorder) \<times> real) list \<Rightarrow> ('i, 'c) pivot" where
  "unstack fill_value s =
     \<lparr>index = sort (remdups (map (fst \<circ> fst) s)),
      columns = sort (remdups (map (snd \<circ> fst) s)),
      body = (\<lambda>i c. case map_of s (i, c) of Some v \<Rightarrow> v | None \<Rightarrow> fill_value)\<rparr>"

text \<open>\<^verbatim>\<open>df.groupby(['month', 'type'])['amount'].sum().unstack(fill_value=0)\<close>\<close>

definition monthly_series :: "(period \<times> transaction) list \<Rightarrow> (period, string) pivot" where
  "monthly_series df = unstack 0 (groupby_sum (\<lambda>r. (fst r, type (snd r))) (amount \<circ> snd) df)"

text \<open>\<^verbatim>\<open>DataFrame.empty\<close>: some axis has length 0.\<close>

definition empty_frame :: "('i, 'c) pivot \<Rightarrow> bool" where
  "empty_frame p = (index p = [] \<or> columns p = [])"

text \<open>
  One plotted line of the trend chart: the column it shows (its legend label is the
  capitalised column name), its colour, and its points, one per month of the index.
\<close>

record trend_line =
  col :: string
  color :: string
  points :: "(period \<times> real) list"

record trend_chart =
  lines :: "trend_line list"
  trend_path :: string

definition colors :: "(string \<times> string) list" where
  "colors = [(''income'', ''#10b981''), (''expense'', ''#ef4444''), (''investment'', ''#8b5cf6'')]"

definition plot_line :: "(period, string) pivot \<Rightarrow> string \<Rightarrow> trend_line option" where
  "plot_line monthly_data c =
     (case map_of colors c of
        None \<Rightarrow> None
      | Some clr \<Rightarrow>
          Some \<lparr>col = c, color = clr,
                points = map (\<lambda>m. (m, body monthly_data m c)) (index monthly_data)\<rparr>)"

text \<open>
  \<^verbatim>\<open>generate_trend_chart\<close>: reads \<^verbatim>\<open>SELECT date, type, amount FROM transactions ORDER BY date\<close>,
  returns \<^verbatim>\<open>None\<close> on an empty frame, and otherwise plots one line for each column of the
  monthly table that has a colour.
\<close>

definition generate_trend_chart ::
  "(string \<Rightarrow> timestamp option) \<Rightarrow> transaction list \<Rightarrow> error + trend_chart option" where
  "generate_trend_chart to_datetime tbl =
     (let df = sort_key date tbl
      in if df = [] then Inr None
         else case add_month to_datetime df of
                Inl e \<Rightarrow> Inl e
              | Inr dfm \<Rightarrow>
                  let monthly_data = monthly_series dfm
                  in if empty_frame monthly_data then Inr None
                     else Inr (Some \<lparr>lines = List.map_filter (plot_line monthly_data)
                                                 (columns monthly_data),
                                      trend_path = ''charts/trend_chart.png''\<rparr>))"

section \<open>Analytics\<close>

text \<open>
  \<^verbatim>\<open>df[df['type'] == t].groupby('source')['amount'].sum().sort_values(ascending=False).head(n)\<close>,
  which \<^verbatim>\<open>analytics\<close> computes for income and for expense with \<open>n = 5\<close>.
  \<^verbatim>\<open>sort_values\<close> is a parameter: its default algorithm is NumPy's quicksort, which
  sorts but fixes no order among equal values.
\<close>

definition top_sources ::
  "((string \<times> real) list \<Rightarrow> (string \<times> real) list) \<Rightarrow> string \<Rightarrow> nat \<Rightarrow> transaction list \<Rightarrow>
     (string \<times> real) list" where
  "top_sources sort_values t n df =
     take n (sort_values (groupby_sum source amount (filter (\<lambda>r. type r = t) df)))"

text \<open>\<^verbatim>\<open>DataFrame.to_dict()\<close>: for each column, the value at each row label.\<close>

definition to_dict :: "('i, 'c) pivot \<Rightarrow> ('c \<times> ('i \<times> real) list) list" where
  "to_dict p = map (\<lambda>c. (c, map (\<lambda>i. (i, body p i c)) (index p))) (columns p)"

record analytics_data =
  monthly_summary :: "(string \<times> (period \<times> real) list) list"
  top_income :: "(string \<times> real) list"
  top_expenses :: "(string \<times> real) list"
  total_transactions :: nat
  avg_transaction :: real

text \<open>
  \<^verbatim>\<open>analytics\<close>: \<^verbatim>\<open>None\<close> stands for the empty dictionary the template gets when the
  table is empty.
\<close>

definition analytics ::
  "((string \<times> real) list \<Rightarrow> (string \<times> real) list) \<Rightarrow> (string \<Rightarrow> timestamp option) \<Rightarrow>
     transaction list \<Rightarrow> error + analytics_data option" where
  "analytics sort_values to_datetime tbl =
     (let df = sort_key date tbl
      in if df = [] then Inr None
         else case add_month to_datetime df of
                Inl e \<Rightarrow> Inl e
              | Inr dfm \<Rightarrow>
                  let summary = monthly_series dfm
                  in Inr (Some
                       \<lparr>monthly_summary = (if \<not> empty_frame summary then to_dict summary else []),
                        top_income = top_sources sort_values ''income'' 5 df,
                        top_expenses = top_sources sort_values ''expense'' 5 df,
                        total_transactions = length df,
                        avg_transaction = sum_list (map amount df) / real (length df)\<rparr>))"

section \<open>The JSON endpoints\<close>

text \<open>
  The body of \<^verbatim>\<open>POST /api/transactions\<close>. A field that is \<open>None\<close> is a key the object
  lacks. The text fields are strings; \<^verbatim>\<open>amount\<close> is any JSON value, since the endpoint
  converts it with \<^verbatim>\<open>float\<close> and handles the conversion's errors.
\<close>

datatype json = JNull | JBool bool | JNum real | JStr string | JArray | JObject







section \<open>Spreadsheet import\<close>














section \<open>Example data\<close>

text \<open>
  The ledger of the specification's scenario: a salary and a tax payment in November
  2023 and a salary in December, with the timestamps their dates parse to.
\<close>

definition salary_nov :: transaction where
  "salary_nov = \<lparr>tid = 1, date = ''2023-11-01'', type = ''income'', source = ''Salary'',
     amount = 5000, description = Some [], created_at = ''2023-11-01 09:00:00''\<rparr>"

definition taxes_nov :: transaction where
  "taxes_nov = \<lparr>tid = 2, date = ''2023-11-09'', type = ''expense'', source = ''Taxes'',
     amount = 400, description = Some [], created_at = ''2023-11-09 09:00:00''\<rparr>"

definition salary_dec :: transaction where
  "salary_dec = \<lparr>tid = 3, date = ''2023-12-01'', type = ''income'', source = ''Salary'',
     amount = 5200, description = Some [], created_at = ''2023-12-01 09:00:00''\<rparr>"

definition scenario :: "transaction list" where
  "scenario = [salary_nov, taxes_nov, salary_dec]"

definition scenario_dates :: "string \<Rightarrow> timestamp option" where
  "scenario_dates =
     map_of [(''2023-11-01'', (2023, 11, 1)), (''2023-11-09'', (2023, 11, 9)),
             (''2023-12-01'', (2023, 12, 1))]"


text \<open>
  Two income sources with equal sums: the salary is met first, the bonus second.
\<close>

definition salary_jan :: transaction where
  "salary_jan = \<lparr>tid = 1, date = ''2024-01-01'', type = ''income'', source = ''Salary'',
     amount = 100, description = Some [], created_at = ''2024-01-01 09:00:00''\<rparr>"

definition bonus_jan :: transaction where
  "bonus_jan = \<lparr>tid = 2, date = ''2024-01-02'', type = ''income'', source = ''Bonus'',
     amount = 100, description = Some [], created_at = ''2024-01-02 09:00:00''\<rparr>"

definition tie_ledger :: "transaction list" where
  "tie_ledger = [salary_jan, bonus_jan]"

definition tie_dates :: "string \<Rightarrow> timestamp option" where
  "tie_dates = map_of [(''2024-01-01'', (2024, 1, 1)), (''2024-01-02'', (2024, 1, 2))]"

text \<open>
  Seven expenses from six sources with distinct sums.
\<close>

definition expense :: "nat \<Rightarrow> string \<Rightarrow> string \<Rightarrow> real \<Rightarrow> transaction" where
  "expense i d src amt = \<lparr>tid = i, date = d, type = ''expense'', source = src, amount = amt,
     description = Some [], created_at = d @ '' 09:00:00''\<rparr>"

definition six_expenses :: "transaction list" where
  "six_expenses =
     [expense 1 ''2024-03-01'' ''Rent'' 1200, expense 2 ''2024-03-02'' ''Food'' 250,
      expense 3 ''2024-03-03'' ''Gym'' 60, expense 4 ''2024-03-04'' ''Travel'' 300,
      expense 5 ''2024-03-05'' ''Books'' 35, expense 6 ''2024-03-06'' ''Bills'' 220,
      expense 7 ''2024-03-07'' ''Food'' 200]"







section \<open>Grouped sums\<close>

lemma set_group_keys: "set (group_keys key df) = key ` set df"
  by (simp add: group_keys_def)

lemma distinct_group_keys: "distinct (group_keys key df)"
  by (simp add: group_keys_def)

lemma sorted_group_keys: "sorted (group_keys key df)"
  by (simp add: group_keys_def)

lemma sum_no_rows:
  assumes "k \<notin> key ` set df"
  shows "sum_list (map val (filter (\<lambda>r. key r = k) df)) = (0::real)"
proof -
  from assms have "filter (\<lambda>r. key r = k) df = []"
    by (auto simp: filter_empty_conv)
  then show ?thesis by simp
qed




lemma sum_list_perm:
  assumes "mset xs = mset ys"
  shows "sum_list (map f xs) = (sum_list (map f ys) :: real)"
proof -
  from assms have "mset (map f xs) = mset (map f ys)" by simp
  then have "sum_mset (mset (map f xs)) = sum_mset (mset (map f ys))" by (rule arg_cong)
  then show ?thesis by (simp only: sum_mset_sum_list)
qed

lemma sum_sort_key_filter:
  "sum_list (map f (filter P (sort_key k xs))) = (sum_list (map f (filter P xs)) :: real)"
  by (rule sum_list_perm) simp

lemma groupby_sum_entry:
  "(k, v) \<in> set (groupby_sum key val df) \<longleftrightarrow>
     k \<in> key ` set df \<and> v = sum_list (map val (filter (\<lambda>r. key r = k) df))"
  by (auto simp: groupby_sum_def set_group_keys)

lemma map_fst_groupby_sum: "map fst (groupby_sum key val df) = group_keys key df"
  by (simp add: groupby_sum_def comp_def)

lemma set_keys_groupby_sum: "set (map fst (groupby_sum key val df)) = key ` set df"
  by (simp add: groupby_sum_def comp_def set_group_keys)

lemma map_of_groupby_sum:
  "map_of (groupby_sum key val df) k =
     (if k \<in> key ` set df then Some (sum_list (map val (filter (\<lambda>r. key r = k) df))) else None)"
  by (simp add: groupby_sum_def map_of_map_restrict set_group_keys restrict_map_def)

lemma groupby_sum_strict: "sorted_wrt (\<lambda>a b. fst a < fst b) (groupby_sum key val df)"
proof -
  have "sorted_wrt (<) (map fst (groupby_sum key val df))"
    by (simp add: map_fst_groupby_sum strict_sorted_iff sorted_group_keys distinct_group_keys)
  then show ?thesis by (simp add: sorted_wrt_map)
qed

lemma group_keys_rev: "group_keys key (rev df) = group_keys key df"
proof -
  have "set (group_keys key (rev df)) = set (group_keys key df)"
    by (simp add: set_group_keys)
  then show ?thesis
    by (rule sorted_distinct_set_unique [OF sorted_group_keys distinct_group_keys
          sorted_group_keys distinct_group_keys])
qed

lemma groupby_sum_rev: "groupby_sum key val (rev df) = groupby_sum key val df"
  by (simp add: groupby_sum_def group_keys_rev rev_filter [symmetric] rev_map [symmetric])

section \<open>Descending order\<close>

lemma mset_order_by_desc: "mset (order_by_desc key xs) = mset xs"
  by (simp add: order_by_desc_def)

lemma sorted_order_by_desc: "sorted_wrt (\<lambda>a b. key b \<le> key a) (order_by_desc key xs)"
proof -
  have "sorted (map key (sort_key key (rev xs)))" by (rule sorted_sort_key)
  then have "sorted_wrt (\<lambda>a b. key a \<le> key b) (sort_key key (rev xs))"
    by (simp add: sorted_wrt_map)
  then show ?thesis by (simp add: order_by_desc_def sorted_wrt_rev)
qed

lemma order_by_desc_stable:
  "filter (\<lambda>y. key y = k) (order_by_desc key xs) = filter (\<lambda>y. key y = k) xs"
proof -
  have "filter (\<lambda>y. key y = k) (order_by_desc key xs) =
        rev (filter (\<lambda>y. key y = k) (sort_key key (rev xs)))"
    by (simp add: order_by_desc_def rev_filter)
  also have "\<dots> = rev (filter (\<lambda>y. key y = k) (rev xs))"
    by (simp only: sort_key_stable)
  also have "\<dots> = filter (\<lambda>y. key y = k) xs"
    by (simp add: rev_filter)
  finally show ?thesis .
qed

section \<open>Totals by type\<close>

lemma fold_update_lookup:
  "fold (\<lambda>row d. d(fst row \<mapsto> snd row)) (map (\<lambda>k. (k, f k)) ks) m k =
     (if k \<in> set ks then Some (f k) else m k)"
  by (induction ks arbitrary: m) auto

lemma totals_lookup:
  assumes "m k = Some 0"
  shows "fold (\<lambda>row d. d(fst row \<mapsto> snd row)) (groupby_sum key val df) m k =
     Some (sum_list (map val (filter (\<lambda>r. key r = k) df)))"
  using assms by (simp add: groupby_sum_def fold_update_lookup set_group_keys sum_no_rows)

lemma calculate_totals_eq:
  "calculate_totals tbl =
     Inr \<lparr>total_income = (\<Sum>t\<leftarrow>filter (\<lambda>t. type t = ''income'') tbl. amount t),
          total_expense = (\<Sum>t\<leftarrow>filter (\<lambda>t. type t = ''expense'') tbl. amount t),
          total_investment = (\<Sum>t\<leftarrow>filter (\<lambda>t. type t = ''investment'') tbl. amount t),
          net_savings = (\<Sum>t\<leftarrow>filter (\<lambda>t. type t = ''income'') tbl. amount t) -
                        (\<Sum>t\<leftarrow>filter (\<lambda>t. type t = ''expense'') tbl. amount t)\<rparr>"
  by (simp add: calculate_totals_def Let_def getitem_def totals_lookup)

text \<open>
  Claim C1. For every list of transactions, \<^const>\<open>calculate_totals\<close> returns (it never
  raises \<^verbatim>\<open>KeyError\<close>) and its three totals are the sums of \<^const>\<open>amount\<close> over exactly
  the transactions of the type income, expense and investment; a type without
  transactions gets the empty sum 0. Net savings is the income total minus the expense
  total. On the empty list all four results are 0.
\<close>

theorem calculate_totals_sums:
  "calculate_totals tbl =
     Inr \<lparr>total_income = (\<Sum>t\<leftarrow>filter (\<lambda>t. type t = ''income'') tbl. amount t),
          total_expense = (\<Sum>t\<leftarrow>filter (\<lambda>t. type t = ''expense'') tbl. amount t),
          total_investment = (\<Sum>t\<leftarrow>filter (\<lambda>t. type t = ''investment'') tbl. amount t),
          net_savings = (\<Sum>t\<leftarrow>filter (\<lambda>t. type t = ''income'') tbl. amount t) -
                        (\<Sum>t\<leftarrow>filter (\<lambda>t. type t = ''expense'') tbl. amount t)\<rparr>
   \<and> calculate_totals [] =
     Inr \<lparr>total_income = 0, total_expense = 0, total_investment = 0, net_savings = 0\<rparr>"
  by (simp add: calculate_totals_eq)

theorem calculate_totals_scenario:
  "calculate_totals scenario =
     Inr \<lparr>total_income = 10200, total_expense = 400, total_investment = 0, net_savings = 9800\<rparr>"
  using calculate_totals_sums [of scenario]
  by (simp add: scenario_def salary_nov_def taxes_nov_def salary_dec_def)

section \<open>Breakdown by source\<close>





section \<open>The empty ledger\<close>

lemma monthly_series_Nil: "index (monthly_series []) = [] \<and> columns (monthly_series []) = []"
  by (simp add: monthly_series_def unstack_def groupby_sum_def group_keys_def)

text \<open>
  Claim C5. On the empty table nothing raises and every result is zero or empty:
  \<^const>\<open>calculate_totals\<close> returns four zeros, \<^const>\<open>get_transactions\<close> and
  \<^const>\<open>breakdown_query\<close> return no rows, the monthly table is an empty frame, and
  \<^const>\<open>analytics\<close> hands the template no data. \<^const>\<open>generate_chart\<close> (for every chart
  type) and \<^const>\<open>generate_trend_chart\<close> return \<open>None\<close>, the signal on which the
  dashboard draws no chart.
\<close>

theorem empty_ledger:
  "calculate_totals [] =
     Inr \<lparr>total_income = 0, total_expense = 0, total_investment = 0, net_savings = 0\<rparr> \<and>
   get_transactions limit [] = [] \<and>
   breakdown_query chart_type [] = [] \<and>
   generate_chart chart_type [] = None \<and>
   empty_frame (monthly_series []) \<and>
   generate_trend_chart to_datetime [] = Inr None \<and>
   analytics sort_values to_datetime [] = Inr None"
proof -
  have "calculate_totals [] =
     Inr \<lparr>total_income = 0, total_expense = 0, total_investment = 0, net_savings = 0\<rparr>"
    by (simp add: calculate_totals_eq)
  moreover have "get_transactions limit [] = []"
    by (simp add: get_transactions_def order_by_desc_def sql_limit_def split: option.splits)
  moreover have q: "breakdown_query chart_type [] = []"
    by (simp add: breakdown_query_def order_by_desc_def groupby_sum_def group_keys_def)
  moreover have "generate_chart chart_type [] = None"
    by (simp add: generate_chart_def q)
  moreover have "empty_frame (monthly_series [])"
    by (simp add: empty_frame_def monthly_series_Nil)
  moreover have "generate_trend_chart to_datetime [] = Inr None"
    by (simp add: generate_trend_chart_def)
  moreover have "analytics sort_values to_datetime [] = Inr None"
    by (simp add: analytics_def)
  ultimately show ?thesis by simp
qed

theorem empty_ledger_dashboard:
  "get_transactions (Some 10) [] = [] \<and>
   generate_chart ''income'' [] = None \<and> generate_chart ''expense'' [] = None \<and>
   generate_chart ''investment'' [] = None \<and>
   generate_trend_chart scenario_dates [] = Inr None \<and>
   analytics (order_by_desc snd) scenario_dates [] = Inr None"
  using empty_ledger [of "Some 10" "''income''" scenario_dates "order_by_desc snd"]
    empty_ledger [of "Some 10" "''expense''" scenario_dates "order_by_desc snd"]
    empty_ledger [of "Some 10" "''investment''" scenario_dates "order_by_desc snd"]
  by simp

section \<open>Listing\<close>




section \<open>Top sources\<close>

lemma sorted_wrt_ties:
  "(\<And>k. sorted_wrt R (filter (\<lambda>x. f x = k) xs)) \<Longrightarrow> sorted_wrt (\<lambda>a b. f a = f b \<longrightarrow> R a b) xs"
proof (induction xs)
  case Nil
  then show ?case by simp
next
  case (Cons a xs)
  have tail: "sorted_wrt R (filter (\<lambda>x. f x = k) xs)" for k
    using Cons.prems [of k] by (simp split: if_splits)
  have "R a y" if "y \<in> set xs" "f a = f y" for y
    using Cons.prems [of "f a"] that by auto
  with Cons.IH tail show ?case by simp
qed

lemma top_sources_general:
  assumes perm: "\<And>xs. mset (sort_values xs) = mset xs"
    and sorts: "\<And>xs. sorted_wrt (\<lambda>a b. snd b \<le> snd a) (sort_values xs)"
  shows "length (top_sources sort_values t n df) \<le> n"
    and "sorted_wrt (\<lambda>a b. snd b \<le> snd a) (top_sources sort_values t n df)"
    and "(s, v) \<in> set (top_sources sort_values t n df) \<Longrightarrow>
           (\<exists>r\<in>set df. type r = t \<and> source r = s) \<and>
           v = (\<Sum>r\<leftarrow>filter (\<lambda>r. type r = t \<and> source r = s) df. amount r)"
    and "(\<And>xs k. filter (\<lambda>x. snd x = k) (sort_values xs) = filter (\<lambda>x. snd x = k) xs) \<Longrightarrow>
           sorted_wrt (\<lambda>a b. snd a = snd b \<longrightarrow> fst a < fst b) (top_sources sort_values t n df)"
proof -
  let ?g = "groupby_sum source amount (filter (\<lambda>r. type r = t) df)"
  show "length (top_sources sort_values t n df) \<le> n"
    by (simp add: top_sources_def)
  show "sorted_wrt (\<lambda>a b. snd b \<le> snd a) (top_sources sort_values t n df)"
    unfolding top_sources_def by (rule sorted_wrt_take) (rule sorts)
  {
    assume "(s, v) \<in> set (top_sources sort_values t n df)"
    then have "(s, v) \<in> set (sort_values ?g)"
      unfolding top_sources_def by (rule in_set_takeD)
    moreover have "set (sort_values ?g) = set ?g"
      by (rule mset_eq_setD) (rule perm)
    ultimately have "(s, v) \<in> set ?g" by simp
    then have "s \<in> source ` set (filter (\<lambda>r. type r = t) df)"
      and v: "v = sum_list (map amount (filter (\<lambda>r. source r = s) (filter (\<lambda>r. type r = t) df)))"
      by (simp_all add: groupby_sum_entry)
    moreover have "filter (\<lambda>r. source r = s) (filter (\<lambda>r. type r = t) df) =
                   filter (\<lambda>r. type r = t \<and> source r = s) df"
      by (simp add: conj_commute)
    ultimately show "(\<exists>r\<in>set df. type r = t \<and> source r = s) \<and>
           v = (\<Sum>r\<leftarrow>filter (\<lambda>r. type r = t \<and> source r = s) df. amount r)"
      by auto
  }
  {
    assume stable: "\<And>xs k. filter (\<lambda>x. snd x = k) (sort_values xs) = filter (\<lambda>x. snd x = k) xs"
    have "sorted_wrt (\<lambda>a b. fst a < fst b) (filter (\<lambda>x. snd x = k) (sort_values ?g))" for k
      unfolding stable by (rule sorted_wrt_filter) (rule groupby_sum_strict)
    then have "sorted_wrt (\<lambda>a b. snd a = snd b \<longrightarrow> fst a < fst b) (sort_values ?g)"
      by (rule sorted_wrt_ties)
    then show "sorted_wrt (\<lambda>a b. snd a = snd b \<longrightarrow> fst a < fst b) (top_sources sort_values t n df)"
      unfolding top_sources_def by (rule sorted_wrt_take)
  }
qed

text \<open>
  Claim C3, amended. Let \<^verbatim>\<open>sort_values\<close> be any function that sorts by descending sum
  (its result is a rearrangement of its argument with non-increasing sums). Then for every
  list of transactions, every type and every \<open>n\<close>, \<^const>\<open>top_sources\<close> returns at most \<open>n\<close>
  entries with non-increasing sums, each the exact sum of a source that occurs with that
  type. When \<^verbatim>\<open>sort_values\<close> moreover keeps entries of equal sum in the order it found
  them, sources with equal sums appear in ascending order of their names: that is the
  order in which the grouping hands them over, whatever the order of the transactions.
\<close>

theorem top_sources_ranked:
  assumes "\<And>xs. mset (sort_values xs) = mset xs"
    and "\<And>xs. sorted_wrt (\<lambda>a b. snd b \<le> snd a) (sort_values xs)"
  shows "length (top_sources sort_values t n df) \<le> n \<and>
     sorted_wrt (\<lambda>a b. snd b \<le> snd a) (top_sources sort_values t n df) \<and>
     (\<forall>sv\<in>set (top_sources sort_values t n df).
        (\<exists>r\<in>set df. type r = t \<and> source r = fst sv) \<and>
        snd sv = (\<Sum>r\<leftarrow>filter (\<lambda>r. type r = t \<and> source r = fst sv) df. amount r)) \<and>
     ((\<forall>xs k. filter (\<lambda>x. snd x = k) (sort_values xs) = filter (\<lambda>x. snd x = k) xs) \<longrightarrow>
        sorted_wrt (\<lambda>a b. snd a = snd b \<longrightarrow> fst a < fst b) (top_sources sort_values t n df))"
proof -
  note general = top_sources_general [of sort_values, OF assms]
  have "(\<exists>r\<in>set df. type r = t \<and> source r = fst sv) \<and>
        snd sv = (\<Sum>r\<leftarrow>filter (\<lambda>r. type r = t \<and> source r = fst sv) df. amount r)"
    if "sv \<in> set (top_sources sort_values t n df)" for sv
    using general(3) [of "fst sv" "snd sv" t n df] that by simp
  with general(1,2,4) show ?thesis by blast
qed

theorem top_five_of_six:
  "top_sources (order_by_desc snd) ''expense'' 5 six_expenses =
     [(''Rent'', 1200), (''Food'', 450), (''Travel'', 300), (''Bills'', 220), (''Gym'', 60)] \<and>
   sorted_wrt (\<lambda>a b. snd a = snd b \<longrightarrow> fst a < fst b)
     (top_sources (order_by_desc snd) ''income'' 5 tie_ledger)"
proof -
  have "top_sources (order_by_desc snd) ''expense'' 5 six_expenses =
     [(''Rent'', 1200), (''Food'', 450), (''Travel'', 300), (''Bills'', 220), (''Gym'', 60)]"
    using top_sources_ranked [of "order_by_desc snd" "''expense''" 5 six_expenses,
        OF mset_order_by_desc sorted_order_by_desc]
    by (simp add: top_sources_def order_by_desc_def groupby_sum_def group_keys_def
        six_expenses_def expense_def)
  moreover have "sorted_wrt (\<lambda>a b. snd a = snd b \<longrightarrow> fst a < fst b)
     (top_sources (order_by_desc snd) ''income'' 5 tie_ledger)"
    using top_sources_ranked [of "order_by_desc snd" "''income''" 5 tie_ledger,
        OF mset_order_by_desc sorted_order_by_desc]
    by (simp add: order_by_desc_stable)
  ultimately show ?thesis by simp
qed

text \<open>
  The result does not depend on the order in which the transactions are met, so no
  choice of \<^verbatim>\<open>sort_values\<close> can rank the source met first before its equals.
\<close>

lemma top_sources_rev: "top_sources sort_values t n (rev df) = top_sources sort_values t n df"
  by (simp add: top_sources_def rev_filter [symmetric] groupby_sum_rev)

text \<open>
  The claim as stated puts the source met first in front of a source with an equal sum.
  In the tie ledger the salary is met first, and the bonus is ranked first.
\<close>

theorem tie_broken_by_name:
  "map source tie_ledger = [''Salary'', ''Bonus''] \<and>
   top_sources (order_by_desc snd) ''income'' 5 tie_ledger = [(''Bonus'', 100), (''Salary'', 100)] \<and>
   map_sum id (map_option top_income) (analytics (order_by_desc snd) tie_dates tie_ledger) =
     Inr (Some [(''Bonus'', 100), (''Salary'', 100)])"
  by (simp add: analytics_def top_sources_def order_by_desc_def groupby_sum_def group_keys_def
      tie_ledger_def salary_jan_def bonus_jan_def tie_dates_def Let_def)

section \<open>Monthly series\<close>

lemma add_month_Inr:
  "add_month td tbl = Inr df \<Longrightarrow>
     df = map (\<lambda>t. (to_period_M (the (td (date t))), t)) tbl \<and> (\<forall>t\<in>set tbl. td (date t) \<noteq> None)"
  by (induction tbl arbitrary: df) (auto split: option.splits sum.splits)

lemma add_month_rows:
  "add_month td tbl = Inr df \<Longrightarrow> map snd df = tbl"
  by (drule add_month_Inr) (simp add: comp_def)

lemma add_month_months:
  assumes "add_month td tbl = Inr df"
  shows "fst ` set df = {m. \<exists>t\<in>set tbl. map_option to_period_M (td (date t)) = Some m}"
proof -
  from add_month_Inr [OF assms]
  have df: "df = map (\<lambda>t. (to_period_M (the (td (date t))), t)) tbl"
    and ok: "\<forall>t\<in>set tbl. td (date t) \<noteq> None" by simp_all
  have eqv: "map_option to_period_M (td (date t)) = Some m \<longleftrightarrow> to_period_M (the (td (date t))) = m"
    if "t \<in> set tbl" for t m
    using ok that by (cases "td (date t)") auto
  have "fst ` set df = (\<lambda>t. to_period_M (the (td (date t)))) ` set tbl"
    unfolding df by (simp add: image_image)
  also have "\<dots> = {m. \<exists>t\<in>set tbl. map_option to_period_M (td (date t)) = Some m}"
  proof (rule set_eqI)
    fix m
    have "m \<in> (\<lambda>t. to_period_M (the (td (date t)))) ` set tbl \<longleftrightarrow>
          (\<exists>t\<in>set tbl. to_period_M (the (td (date t))) = m)"
      by auto
    also have "\<dots> \<longleftrightarrow> (\<exists>t\<in>set tbl. map_option to_period_M (td (date t)) = Some m)"
      by (rule bex_cong [OF refl]) (erule eqv [symmetric])
    finally show "m \<in> (\<lambda>t. to_period_M (the (td (date t)))) ` set tbl \<longleftrightarrow>
          m \<in> {m. \<exists>t\<in>set tbl. map_option to_period_M (td (date t)) = Some m}"
      by simp
  qed
  finally show ?thesis .
qed

lemma add_month_filter:
  assumes "add_month td tbl = Inr df"
  shows "map snd (filter (\<lambda>r. (fst r, type (snd r)) = (m, c)) df) =
     filter (\<lambda>t. map_option to_period_M (td (date t)) = Some m \<and> type t = c) tbl"
proof -
  from add_month_Inr [OF assms]
  have df: "df = map (\<lambda>t. (to_period_M (the (td (date t))), t)) tbl"
    and ok: "\<forall>t\<in>set tbl. td (date t) \<noteq> None" by simp_all
  have "filter (\<lambda>t. to_period_M (the (td (date t))) = m \<and> type t = c) tbl =
        filter (\<lambda>t. map_option to_period_M (td (date t)) = Some m \<and> type t = c) tbl"
    using ok by (intro filter_cong refl) auto
  then show ?thesis
    unfolding df by (simp add: filter_map comp_def)
qed

lemma body_monthly_series:
  "body (monthly_series df) m c =
     sum_list (map (amount \<circ> snd) (filter (\<lambda>r. (fst r, type (snd r)) = (m, c)) df))"
proof (cases "(m, c) \<in> (\<lambda>r. (fst r, type (snd r))) ` set df")
  case True
  then show ?thesis
    by (simp add: monthly_series_def unstack_def map_of_groupby_sum)
next
  case False
  then have "sum_list (map (amount \<circ> snd) (filter (\<lambda>r. (fst r, type (snd r)) = (m, c)) df)) = 0"
    by (rule sum_no_rows)
  with False show ?thesis
    by (simp add: monthly_series_def unstack_def map_of_groupby_sum)
qed

lemma index_monthly_series:
  "sorted_wrt (<) (index (monthly_series df)) \<and> set (index (monthly_series df)) = fst ` set df"
proof -
  let ?g = "groupby_sum (\<lambda>r. (fst r, type (snd r))) (amount \<circ> snd) df"
  have "set (map (fst \<circ> fst) ?g) = fst ` set (map fst ?g)"
    by (simp add: image_image)
  also have "\<dots> = fst ` ((\<lambda>r. (fst r, type (snd r))) ` set df)"
    by (simp only: set_keys_groupby_sum)
  also have "\<dots> = fst ` set df"
    by (simp add: image_image)
  finally show ?thesis
    by (simp add: monthly_series_def unstack_def strict_sorted_iff)
qed

lemma columns_monthly_series:
  "sorted_wrt (<) (columns (monthly_series df)) \<and>
   set (columns (monthly_series df)) = type ` set (map snd df)"
proof -
  let ?g = "groupby_sum (\<lambda>r. (fst r, type (snd r))) (amount \<circ> snd) df"
  have "set (map (snd \<circ> fst) ?g) = snd ` set (map fst ?g)"
    by (simp add: image_image)
  also have "\<dots> = snd ` ((\<lambda>r. (fst r, type (snd r))) ` set df)"
    by (simp only: set_keys_groupby_sum)
  also have "\<dots> = type ` set (map snd df)"
    by (simp add: image_image)
  finally show ?thesis
    by (simp add: monthly_series_def unstack_def strict_sorted_iff)
qed

lemma monthly_series_body_tbl:
  assumes "add_month td (sort_key date tbl) = Inr df"
  shows "body (monthly_series df) m c =
     (\<Sum>t\<leftarrow>filter (\<lambda>t. map_option to_period_M (td (date t)) = Some m \<and> type t = c) tbl. amount t)"
proof -
  have "body (monthly_series df) m c =
        sum_list (map amount (map snd (filter (\<lambda>r. (fst r, type (snd r)) = (m, c)) df)))"
    by (simp add: body_monthly_series)
  also have "\<dots> = sum_list (map amount
       (filter (\<lambda>t. map_option to_period_M (td (date t)) = Some m \<and> type t = c) (sort_key date tbl)))"
    by (simp only: add_month_filter [OF assms])
  also have "\<dots> = sum_list (map amount
       (filter (\<lambda>t. map_option to_period_M (td (date t)) = Some m \<and> type t = c) tbl))"
    by (rule sum_sort_key_filter)
  finally show ?thesis .
qed

text \<open>
  Claim C2, amended. Whenever every date parses, so that \<^const>\<open>add_month\<close> returns the
  frame \<open>df\<close>, the table \<^term>\<open>monthly_series df\<close> has its months in strictly ascending
  chronological order, they are exactly the months of the transactions, its columns are
  exactly the types that occur in the transactions, and the value at every month and type
  is the sum of the amounts of the transactions of that month and type. So a type that
  occurs somewhere in the data but not in a month of the series has the value 0 there; a
  type that occurs nowhere in the data has no column.
\<close>

theorem monthly_series_table:
  assumes "add_month to_datetime (sort_key date tbl) = Inr df"
  shows "sorted_wrt (<) (index (monthly_series df)) \<and>
     set (index (monthly_series df)) =
       {m. \<exists>t\<in>set tbl. map_option to_period_M (to_datetime (date t)) = Some m} \<and>
     set (columns (monthly_series df)) = type ` set tbl \<and>
     (\<forall>m c. body (monthly_series df) m c =
        (\<Sum>t\<leftarrow>filter (\<lambda>t. map_option to_period_M (to_datetime (date t)) = Some m \<and> type t = c) tbl.
            amount t)) \<and>
     (\<forall>m c. c \<in> type ` set tbl \<and>
        \<not> (\<exists>t\<in>set tbl. map_option to_period_M (to_datetime (date t)) = Some m \<and> type t = c) \<longrightarrow>
        c \<in> set (columns (monthly_series df)) \<and> body (monthly_series df) m c = 0)"
proof -
  have rows: "map snd df = sort_key date tbl"
    using assms by (rule add_month_rows)
  have cols: "set (columns (monthly_series df)) = type ` set tbl"
    by (simp add: columns_monthly_series rows)
  have zero: "body (monthly_series df) m c = 0"
    if "\<not> (\<exists>t\<in>set tbl. map_option to_period_M (to_datetime (date t)) = Some m \<and> type t = c)"
    for m c
  proof -
    from that have "filter (\<lambda>t. map_option to_period_M (to_datetime (date t)) = Some m \<and> type t = c) tbl = []"
      by (auto simp: filter_empty_conv)
    then show ?thesis by (simp add: monthly_series_body_tbl [OF assms])
  qed
  show ?thesis
    using add_month_months [OF assms] cols zero
    by (simp add: index_monthly_series monthly_series_body_tbl [OF assms])
qed

theorem monthly_series_scenario:
  "add_month scenario_dates (sort_key date scenario) =
     Inr [((2023, 11), salary_nov), ((2023, 11), taxes_nov), ((2023, 12), salary_dec)] \<and>
   index (monthly_series [((2023, 11), salary_nov), ((2023, 11), taxes_nov), ((2023, 12), salary_dec)]) =
     [(2023, 11), (2023, 12)] \<and>
   body (monthly_series [((2023, 11), salary_nov), ((2023, 11), taxes_nov), ((2023, 12), salary_dec)])
     (2023, 11) ''income'' = 5000 \<and>
   body (monthly_series [((2023, 11), salary_nov), ((2023, 11), taxes_nov), ((2023, 12), salary_dec)])
     (2023, 12) ''expense'' = 0"
proof -
  have parsed: "add_month scenario_dates (sort_key date scenario) =
     Inr [((2023, 11), salary_nov), ((2023, 11), taxes_nov), ((2023, 12), salary_dec)]"
    by (simp add: scenario_def salary_nov_def taxes_nov_def salary_dec_def scenario_dates_def
        to_period_M_def)
  show ?thesis
    using monthly_series_table [OF parsed] parsed
    by (simp add: scenario_def salary_nov_def taxes_nov_def salary_dec_def scenario_dates_def
        to_period_M_def monthly_series_def unstack_def groupby_sum_def group_keys_def)
qed

text \<open>
  The claim as stated gives every type without transactions in a month of the series the
  value 0 there. In the scenario no investment occurs: November 2023 is in the series and
  the table has no investment column.
\<close>

theorem investment_column_absent:
  "index (monthly_series [((2023, 11), salary_nov), ((2023, 11), taxes_nov), ((2023, 12), salary_dec)]) =
     [(2023, 11), (2023, 12)] \<and>
   columns (monthly_series [((2023, 11), salary_nov), ((2023, 11), taxes_nov), ((2023, 12), salary_dec)]) =
     [''expense'', ''income''] \<and>
   ''investment'' \<notin>
     set (columns (monthly_series [((2023, 11), salary_nov), ((2023, 11), taxes_nov), ((2023, 12), salary_dec)]))"
  by (simp add: salary_nov_def taxes_nov_def salary_dec_def
      monthly_series_def unstack_def groupby_sum_def group_keys_def)

section \<open>Trend chart\<close>






section \<open>Deleting a transaction\<close>





section \<open>Inserting transactions\<close>













section \<open>Spreadsheet import\<close>



end
